theory Spec2Isabelle
  imports Complex_Main
begin

section \<open>numpy scalars and arrays\<close>

text \<open>
  The module \<^verbatim>\<open>rasl/tform.py\<close> computes on numpy arrays of dtype float. A float is
  modelled by its four kinds of value: a finite number, the two infinities and NaN.
  Finite arithmetic is exact here (rounding, overflow to infinity and the sign of zero
  are not modelled); the special values follow IEEE 754, which is what numpy computes
  with (a division by zero gives an infinity or NaN and a warning, never an exception).
\<close>

datatype fl = Fin real | PInf | NInf | NaN

fun fl_neg :: "fl \<Rightarrow> fl" where
  "fl_neg (Fin a) = Fin (- a)"
| "fl_neg PInf = NInf"
| "fl_neg NInf = PInf"
| "fl_neg NaN = NaN"

fun fl_add :: "fl \<Rightarrow> fl \<Rightarrow> fl" where
  "fl_add NaN y = NaN"
| "fl_add x NaN = NaN"
| "fl_add (Fin a) (Fin b) = Fin (a + b)"
| "fl_add PInf NInf = NaN"
| "fl_add NInf PInf = NaN"
| "fl_add PInf y = PInf"
| "fl_add x PInf = PInf"
| "fl_add NInf y = NInf"
| "fl_add x NInf = NInf"

definition fl_sub :: "fl \<Rightarrow> fl \<Rightarrow> fl" where
  "fl_sub x y = fl_add x (fl_neg y)"

text \<open>The sign of a product or quotient with an infinity: \<open>signed True\<close> is \<open>+inf\<close>.\<close>

definition signed :: "bool \<Rightarrow> fl" where
  "signed pos = (if pos then PInf else NInf)"

fun fl_mul :: "fl \<Rightarrow> fl \<Rightarrow> fl" where
  "fl_mul NaN y = NaN"
| "fl_mul x NaN = NaN"
| "fl_mul (Fin a) (Fin b) = Fin (a * b)"
| "fl_mul (Fin a) PInf = (if a = 0 then NaN else signed (0 < a))"
| "fl_mul (Fin a) NInf = (if a = 0 then NaN else signed (a < 0))"
| "fl_mul PInf (Fin b) = (if b = 0 then NaN else signed (0 < b))"
| "fl_mul NInf (Fin b) = (if b = 0 then NaN else signed (b < 0))"
| "fl_mul PInf PInf = PInf"
| "fl_mul PInf NInf = NInf"
| "fl_mul NInf PInf = NInf"
| "fl_mul NInf NInf = PInf"

fun fl_div :: "fl \<Rightarrow> fl \<Rightarrow> fl" where
  "fl_div NaN y = NaN"
| "fl_div x NaN = NaN"
| "fl_div (Fin a) (Fin b) =
     (if b = 0 then (if a = 0 then NaN else signed (0 < a)) else Fin (a / b))"
| "fl_div (Fin a) PInf = Fin 0"
| "fl_div (Fin a) NInf = Fin 0"
| "fl_div PInf (Fin b) = signed (0 \<le> b)"
| "fl_div NInf (Fin b) = signed (b < 0)"
| "fl_div PInf y = NaN"
| "fl_div NInf y = NaN"

fun fl_floor :: "fl \<Rightarrow> fl" where
  "fl_floor (Fin a) = Fin (of_int \<lfloor>a\<rfloor>)"
| "fl_floor x = x"

text \<open>Comparisons: every comparison with NaN is false, so \<open>x == x\<close> fails exactly at NaN.\<close>

fun fl_lt :: "fl \<Rightarrow> fl \<Rightarrow> bool" where
  "fl_lt NaN y = False"
| "fl_lt x NaN = False"
| "fl_lt (Fin a) (Fin b) = (a < b)"
| "fl_lt x NInf = False"
| "fl_lt PInf y = False"
| "fl_lt NInf y = True"
| "fl_lt x PInf = True"

fun fl_eq :: "fl \<Rightarrow> fl \<Rightarrow> bool" where
  "fl_eq NaN y = False"
| "fl_eq x NaN = False"
| "fl_eq x y = (x = y)"

fun isfinite :: "fl \<Rightarrow> bool" where
  "isfinite (Fin a) = True"
| "isfinite x = False"

text \<open>
  A 3x3 matrix is three rows of three entries; \<open>dot\<close> is \<^verbatim>\<open>ndarray.dot\<close> on two of
  them, \<open>eye3\<close> is \<^verbatim>\<open>np.eye(3)\<close>. Arguments of another shape are excluded by the type.
\<close>

type_synonym row = "fl \<times> fl \<times> fl"
type_synonym mat = "row \<times> row \<times> row"

fun row_dot :: "row \<Rightarrow> row \<Rightarrow> fl" where
  "row_dot (a, b, c) (x, y, z) = fl_add (fl_add (fl_mul a x) (fl_mul b y)) (fl_mul c z)"

fun columns :: "mat \<Rightarrow> mat" where
  "columns ((a, b, c), (d, e, f), (g, h, i)) = ((a, d, g), (b, e, h), (c, f, i))"

fun row_times :: "row \<Rightarrow> mat \<Rightarrow> row" where
  "row_times r (c0, c1, c2) = (row_dot r c0, row_dot r c1, row_dot r c2)"

fun dot :: "mat \<Rightarrow> mat \<Rightarrow> mat" where
  "dot (r0, r1, r2) B = (row_times r0 (columns B), row_times r1 (columns B), row_times r2 (columns B))"

definition eye3 :: mat where
  "eye3 = ((Fin 1, Fin 0, Fin 0), (Fin 0, Fin 1, Fin 0), (Fin 0, Fin 0, Fin 1))"

section \<open>The store of array buffers\<close>

text \<open>
  Attributes of a transform hold references to numpy arrays, and \<^verbatim>\<open>copy.copy\<close>
  copies the references, not the arrays. The store is the list of all array buffers
  allocated so far; an address is an index into it. \<open>alloc\<close> is what \<^verbatim>\<open>np.array(.., copy=True)\<close>
  and every array-valued expression do: a new buffer at an address no earlier one has.
  \<open>write_at\<close> is an in-place assignment \<^verbatim>\<open>a[...] = v\<close> through a reference.
\<close>

datatype ndarray = Vec (vec_of: "fl list") | Mat (mat_of: mat)

type_synonym addr = nat
type_synonym store = "ndarray list"

definition alloc :: "store \<Rightarrow> ndarray \<Rightarrow> addr \<times> store" where
  "alloc h v = (length h, h @ [v])"

definition write_at :: "store \<Rightarrow> addr \<Rightarrow> ndarray \<Rightarrow> store" where
  "write_at h a v = h[a := v]"

section \<open>The collaborators\<close>

text \<open>
  \<^verbatim>\<open>rasl.toolbox\<close> (the parameter codec) and \<^verbatim>\<open>skimage.transform.warp\<close> (the
  resampling primitive) are not part of this module: they are parameters of the model.
  Either one returns a value or raises; the arrays a codec returns are new arrays.
  The warp primitive receives the arguments \<^verbatim>\<open>imtransform\<close> gives it, in the order
  image, matrix, order, mode, cval, preserve_range, output_shape.
\<close>

datatype ttype = Translate | Scale | Rotate | Similarity | Affine | Projective

record codec =
  parameters_to_projective_matrix :: "ttype \<Rightarrow> fl list \<Rightarrow> mat option"
  projective_matrix_to_parameters :: "ttype \<Rightarrow> mat \<Rightarrow> fl list option"

type_synonym image = "fl list list"
type_synonym warp = "image \<Rightarrow> mat \<Rightarrow> int \<Rightarrow> string \<Rightarrow> fl \<Rightarrow> bool \<Rightarrow> fl list option \<Rightarrow> image option"

text \<open>
  The errors, named by where they are raised: the \<^verbatim>\<open>ValueError\<close> of
  \<^verbatim>\<open>imtransform\<close> itself, an exception out of the codec, an exception out of warp.
\<close>

datatype error = NAN_given_to_imtransform | Codec_raised | Warp_raised

section \<open>ParamvMixin\<close>

text \<open>
  An instance is its attribute dictionary: the family tag and the references held by
  \<^verbatim>\<open>_paramv\<close>, \<^verbatim>\<open>_matrix\<close>, \<^verbatim>\<open>_frame\<close>, \<^verbatim>\<open>_output_shape\<close> (\<open>None\<close> when unset) and
  \<^verbatim>\<open>params\<close>, the matrix that warp receives. A method takes the instance and the store
  and returns both as they are when it returns or raises (\<open>Some e\<close>: it raised \<open>e\<close>):
  an assignment made before the exception stays made.
  The getters \<^verbatim>\<open>paramv\<close>, \<^verbatim>\<open>matrix\<close>, \<^verbatim>\<open>frame\<close>, \<^verbatim>\<open>output_shape\<close> return the stored
  reference itself, which the record's fields are.
\<close>

record tform =
  ttype :: ttype
  paramv_ref :: addr
  matrix_ref :: addr
  frame_ref :: addr
  output_shape_ref :: "addr option"
  params_ref :: addr

text \<open>\<^verbatim>\<open>self.params = self.frame.dot(self.matrix)\<close>, the last line of each setter.\<close>

definition set_params :: "tform \<Rightarrow> store \<Rightarrow> tform \<times> store" where
  "set_params t h =
     (let (a, h') = alloc h (Mat (dot (mat_of (h ! frame_ref t)) (mat_of (h ! matrix_ref t))))
      in (t\<lparr>params_ref := a\<rparr>, h'))"

definition paramv_setter :: "codec \<Rightarrow> fl list \<Rightarrow> tform \<Rightarrow> store \<Rightarrow> error option \<times> tform \<times> store" where
  "paramv_setter c paramv t h =
     (let (a, h1) = alloc h (Vec paramv);
          t1 = t\<lparr>paramv_ref := a\<rparr>
      in case parameters_to_projective_matrix c (ttype t1) paramv of
           None \<Rightarrow> (Some Codec_raised, t1, h1)
         | Some m \<Rightarrow>
             (let (b, h2) = alloc h1 (Mat m);
                  (t3, h3) = set_params (t1\<lparr>matrix_ref := b\<rparr>) h2
              in (None, t3, h3)))"

definition frame_setter :: "mat \<Rightarrow> tform \<Rightarrow> store \<Rightarrow> error option \<times> tform \<times> store" where
  "frame_setter frame t h =
     (let (a, h1) = alloc h (Mat frame);
          (t2, h2) = set_params (t\<lparr>frame_ref := a\<rparr>) h1
      in (None, t2, h2))"

definition matrix_setter :: "codec \<Rightarrow> mat \<Rightarrow> tform \<Rightarrow> store \<Rightarrow> error option \<times> tform \<times> store" where
  "matrix_setter c matrix t h =
     (let (a, h1) = alloc h (Mat matrix);
          t1 = t\<lparr>matrix_ref := a\<rparr>
      in case projective_matrix_to_parameters c (ttype t1) (mat_of (h1 ! matrix_ref t1)) of
           None \<Rightarrow> (Some Codec_raised, t1, h1)
         | Some pv \<Rightarrow>
             (let (b, h2) = alloc h1 (Vec pv);
                  (t3, h3) = set_params (t1\<lparr>paramv_ref := b\<rparr>) h2
              in (None, t3, h3)))"

text \<open>
  \<^verbatim>\<open>__init__\<close>. The base class's constructor stores a \<^verbatim>\<open>params\<close> of its own, which the
  setter called last replaces; until that setter has run the instance has no
  \<^verbatim>\<open>_paramv\<close> and no \<^verbatim>\<open>_matrix\<close>, and the record holds the base class's buffer in
  their place. A constructor that raises leaves no instance: the result is the error alone.
\<close>

definition init :: "codec \<Rightarrow> ttype \<Rightarrow> fl list option \<Rightarrow> mat option \<Rightarrow> store \<Rightarrow> error + tform \<times> store" where
  "init c tt paramv matrix h =
     (let (p, h0) = alloc h (Mat (case matrix of None \<Rightarrow> eye3 | Some m \<Rightarrow> m));
          (f, h1) = alloc h0 (Mat eye3);
          t = \<lparr>ttype = tt, paramv_ref = p, matrix_ref = p, frame_ref = f,
               output_shape_ref = None, params_ref = p\<rparr>;
          (e, t', h') =
            (case matrix of
               Some m \<Rightarrow> matrix_setter c m t h1
             | None \<Rightarrow>
                (case paramv of
                   Some pv \<Rightarrow> paramv_setter c pv t h1
                 | None \<Rightarrow>
                    (case projective_matrix_to_parameters c tt eye3 of
                       None \<Rightarrow> (Some Codec_raised, t, h1)
                     | Some pv \<Rightarrow> paramv_setter c pv t h1)))
      in case e of Some err \<Rightarrow> Inl err | None \<Rightarrow> Inr (t', h'))"

text \<open>
  \<^verbatim>\<open>clone\<close>: \<^verbatim>\<open>copy.copy(self)\<close> is a new instance with the same attribute values, that is
  the same references; then the \<^verbatim>\<open>paramv\<close> setter runs on the copy.
\<close>

definition clone :: "codec \<Rightarrow> fl list option \<Rightarrow> tform \<Rightarrow> store \<Rightarrow> error + tform \<times> store" where
  "clone c paramv t h =
     (let cln = t;
          (e, cln', h') =
            (case paramv of
               None \<Rightarrow> paramv_setter c (vec_of (h ! paramv_ref t)) cln h
             | Some pv \<Rightarrow> paramv_setter c pv cln h)
      in case e of Some err \<Rightarrow> Inl err | None \<Rightarrow> Inr (cln', h'))"

subsection \<open>imtransform\<close>

text \<open>\<^verbatim>\<open>np.nan_to_num\<close> on one element; \<open>max_float\<close> is the largest finite double.\<close>

definition max_float :: real where
  "max_float = (2 - 1 / 2 ^ 52) * 2 ^ 1023"

fun nan_to_num :: "fl \<Rightarrow> fl" where
  "nan_to_num NaN = Fin 0"
| "nan_to_num PInf = Fin max_float"
| "nan_to_num NInf = Fin (- max_float)"
| "nan_to_num (Fin a) = Fin a"

text \<open>Lines 140 to 144: what becomes of the warped image \<open>timage\<close>.\<close>

definition fill :: "fl \<Rightarrow> image \<Rightarrow> image" where
  "fill cval timage =
     (if fl_eq cval (Fin 0) then map (map nan_to_num) timage
      else if isfinite cval then map (map (\<lambda>x. if isfinite x then x else cval)) timage
      else timage)"

definition imtransform :: "warp \<Rightarrow> tform \<Rightarrow> store \<Rightarrow> image \<Rightarrow> int \<Rightarrow> fl \<Rightarrow> error + image" where
  "imtransform warp t h img order cval =
     (if \<not> list_all (list_all (\<lambda>x. fl_eq x x)) img then Inl NAN_given_to_imtransform
      else case warp img (mat_of (h ! params_ref t)) order ''constant'' NaN True
                  (map_option (\<lambda>a. vec_of (h ! a)) (output_shape_ref t)) of
             None \<Rightarrow> Inl Warp_raised
           | Some timage \<Rightarrow> Inr (fill cval timage))"

subsection \<open>inset\<close>

text \<open>
  The \<^verbatim>\<open>frame\<close> argument is a number, a pair (the cropped size) or a pair of pairs (the
  boundary points); \<^verbatim>\<open>shape\<close> is a pair (rows, columns). \<open>resolve\<close> is lines 174 to 181,
  \<open>wrap\<close> is \<^verbatim>\<open>np.where(bounds < 0, shape + bounds, bounds)\<close> on one element, where
  broadcasting pairs the element in column \<open>j\<close> with \<open>shape[j]\<close>.
\<close>

datatype frame_spec = Width fl | Size fl fl | Bounds "fl \<times> fl" "fl \<times> fl"

type_synonym bounds = "(fl \<times> fl) \<times> (fl \<times> fl)"

definition resolve :: "fl \<times> fl \<Rightarrow> frame_spec \<Rightarrow> bounds" where
  "resolve shape frame =
     (case frame of
        Width b \<Rightarrow> ((b, b), (fl_sub (fl_neg b) (Fin 1), fl_sub (fl_neg b) (Fin 1)))
      | Size bh bw \<Rightarrow>
          (let ih = fl_div (fl_sub (fst shape) bh) (Fin 2);
               iw = fl_div (fl_sub (snd shape) bw) (Fin 2)
           in ((fl_floor ih, fl_floor iw),
               (fl_floor (fl_sub (fl_neg ih) (Fin 1)), fl_floor (fl_sub (fl_neg iw) (Fin 1)))))
      | Bounds lo hi \<Rightarrow> (lo, hi))"

definition wrap :: "fl \<Rightarrow> fl \<Rightarrow> fl" where
  "wrap s v = (if fl_lt v (Fin 0) then fl_add s v else v)"

definition inset_bounds :: "fl \<times> fl \<Rightarrow> frame_spec \<Rightarrow> bounds" where
  "inset_bounds shape frame =
     (case resolve shape frame of
        ((r0, c0), (r1, c1)) \<Rightarrow>
          ((wrap (fst shape) r0, wrap (snd shape) c0), (wrap (fst shape) r1, wrap (snd shape) c1)))"

definition inset_scale :: "fl \<times> fl \<Rightarrow> bounds \<Rightarrow> bool \<Rightarrow> fl \<times> fl" where
  "inset_scale shape b crop =
     (if crop then (Fin 1, Fin 1)
      else (fl_div (fl_sub (fst (snd b)) (fst (fst b))) (fl_sub (fst shape) (Fin 1)),
            fl_div (fl_sub (snd (snd b)) (snd (fst b))) (fl_sub (snd shape) (Fin 1))))"

definition inset_output_shape :: "fl \<times> fl \<Rightarrow> bounds \<Rightarrow> bool \<Rightarrow> fl list" where
  "inset_output_shape shape b crop =
     (if crop then [fl_add (fl_sub (fst (snd b)) (fst (fst b))) (Fin 1),
                    fl_add (fl_sub (snd (snd b)) (snd (fst b))) (Fin 1)]
      else [fst shape, snd shape])"

definition inset :: "codec \<Rightarrow> fl \<times> fl \<Rightarrow> frame_spec \<Rightarrow> bool \<Rightarrow> tform \<Rightarrow> store \<Rightarrow> error option \<times> tform \<times> store" where
  "inset c shape frame crop t h =
     (let b = inset_bounds shape frame;
          scale = inset_scale shape b crop;
          (a, h1) = alloc h (Vec (inset_output_shape shape b crop));
          t1 = t\<lparr>output_shape_ref := Some a\<rparr>
      in case parameters_to_projective_matrix c Affine
                [snd scale, Fin 0, snd (fst b), Fin 0, fst scale, fst (fst b)] of
           None \<Rightarrow> (Some Codec_raised, t1, h1)
         | Some framemat \<Rightarrow> frame_setter framemat t1 h1)"

section \<open>Callers\<close>

text \<open>
  The four mutators of an instance, and a caller that makes a sequence of such calls
  on one instance, going on after a call that raised (as a caller that catches the
  exception does): \<open>trace\<close> lists what each call left, in order.
\<close>

datatype call =
    SetParamVector "fl list"
  | SetMatrix mat
  | SetFrame mat
  | Inset "fl \<times> fl" frame_spec bool



text \<open>
  \<open>allocated\<close>: every reference of the instance is a buffer of the store, as it is for
  an instance the constructor made. \<open>effective\<close>: the matrix that warp receives is the
  product of the frame and the matrix.
\<close>

definition allocated :: "tform \<Rightarrow> store \<Rightarrow> bool" where
  "allocated t h =
     (paramv_ref t < length h \<and> matrix_ref t < length h \<and> frame_ref t < length h
      \<and> params_ref t < length h
      \<and> (case output_shape_ref t of None \<Rightarrow> True | Some a \<Rightarrow> a < length h))"


section \<open>Concrete collaborators and instances\<close>

text \<open>
  Modelled from the spec: the codec \<^verbatim>\<open>rasl.toolbox\<close> is not in this module. This is a
  codec for two families, used for concrete instances only (every general statement
  below holds for any codec). The affine layout is that of section 4.2 of the spec,
  \<open>[scaleCol, 0, originCol, 0, scaleRow, originRow]\<close> in (x = column, y = row) order;
  a translation has the two offsets; a matrix outside the family's subspace is rejected,
  as section 6 says; the families that the spec gives no layout for are not covered
  (the codec raises).
\<close>

fun sample_to_matrix :: "ttype \<Rightarrow> fl list \<Rightarrow> mat option" where
  "sample_to_matrix Affine [a, b, c, d, e, f] =
     Some ((a, b, c), (d, e, f), (Fin 0, Fin 0, Fin 1))"
| "sample_to_matrix Translate [tx, ty] =
     Some ((Fin 1, Fin 0, tx), (Fin 0, Fin 1, ty), (Fin 0, Fin 0, Fin 1))"
| "sample_to_matrix tt pv = None"

fun sample_to_params :: "ttype \<Rightarrow> mat \<Rightarrow> fl list option" where
  "sample_to_params Affine ((a, b, c), (d, e, f), r2) =
     (if r2 = (Fin 0, Fin 0, Fin 1) then Some [a, b, c, d, e, f] else None)"
| "sample_to_params Translate ((a, b, c), (d, e, f), r2) =
     (if a = Fin 1 \<and> b = Fin 0 \<and> d = Fin 0 \<and> e = Fin 1 \<and> r2 = (Fin 0, Fin 0, Fin 1)
      then Some [c, f] else None)"
| "sample_to_params tt m = None"

definition sample_codec :: codec where
  "sample_codec = \<lparr>parameters_to_projective_matrix = sample_to_matrix,
                    projective_matrix_to_parameters = sample_to_params\<rparr>"

text \<open>
  Modelled from the spec: the resampling primitive \<^verbatim>\<open>skimage.transform.warp\<close> is not in
  this module. This stand-in knows one case of its contract, the one section 8 states:
  the identity matrix with no output shape returns the image as it is. For any other
  call it answers as if every pixel mapped outside the source: all fill values.
\<close>

definition sample_warp :: warp where
  "sample_warp img m order mode cval preserve_range output_shape =
     Some (if m = eye3 \<and> output_shape = None then img else map (map (\<lambda>x. cval)) img)"

text \<open>
  The instance and the store that \<^verbatim>\<open>TranslateTransform()\<close> makes in an empty store
  (\<open>init_fresh\<close> below), a matrix with a shear, which is no translation, and the
  identity with its entry \<open>[0, 2]\<close> set to 7.
\<close>

definition fresh_tform :: tform where
  "fresh_tform = \<lparr>ttype = Translate, paramv_ref = 2, matrix_ref = 3, frame_ref = 1,
                   output_shape_ref = None, params_ref = 4\<rparr>"

definition fresh_store :: store where
  "fresh_store = [Mat eye3, Mat eye3, Vec [Fin 0, Fin 0], Mat eye3, Mat eye3]"


definition shifted :: mat where
  "shifted = ((Fin 1, Fin 0, Fin 7), (Fin 0, Fin 1, Fin 0), (Fin 0, Fin 0, Fin 1))"

section \<open>Basic facts\<close>

lemma fl_eq_refl: "fl_eq x x = (x \<noteq> NaN)"
  by (cases x) simp_all


lemma nan_to_num_finite: "isfinite x \<Longrightarrow> nan_to_num x = x"
  by (cases x) simp_all

lemma init_fresh: "init sample_codec Translate None None [] = Inr (fresh_tform, fresh_store)"
  by (simp add: init_def paramv_setter_def set_params_def alloc_def sample_codec_def
      fresh_tform_def fresh_store_def eye3_def)

lemma frame_setter_eq:
  "frame_setter f t h =
     (None, t\<lparr>frame_ref := length h, params_ref := Suc (length h)\<rparr>,
      h @ [Mat f, Mat (dot f (mat_of ((h @ [Mat f]) ! matrix_ref t)))])"
  by (simp add: frame_setter_def set_params_def alloc_def)

lemma inset_eq:
  "inset c shape frame crop t h =
     (case parameters_to_projective_matrix c Affine
             [snd (inset_scale shape (inset_bounds shape frame) crop), Fin 0,
              snd (fst (inset_bounds shape frame)), Fin 0,
              fst (inset_scale shape (inset_bounds shape frame) crop),
              fst (fst (inset_bounds shape frame))] of
        None \<Rightarrow>
          (Some Codec_raised, t\<lparr>output_shape_ref := Some (length h)\<rparr>,
           h @ [Vec (inset_output_shape shape (inset_bounds shape frame) crop)])
      | Some m \<Rightarrow>
          (None,
           t\<lparr>output_shape_ref := Some (length h), frame_ref := Suc (length h),
              params_ref := Suc (Suc (length h))\<rparr>,
           h @ [Vec (inset_output_shape shape (inset_bounds shape frame) crop), Mat m,
                Mat (dot m (mat_of ((h @ [Vec (inset_output_shape shape (inset_bounds shape frame) crop),
                                          Mat m]) ! matrix_ref t)))]))"
  by (simp add: inset_def alloc_def frame_setter_eq Let_def split: option.splits)

lemma nth_app3:
  "(xs @ [x, y, z]) ! length xs = x"
  "(xs @ [x, y, z]) ! Suc (length xs) = y"
  "(xs @ [x, y, z]) ! Suc (Suc (length xs)) = z"
  by (simp_all add: nth_append)

lemma nth_app2:
  "(xs @ [x, y]) ! length xs = x"
  "(xs @ [x, y]) ! Suc (length xs) = y"
  by (simp_all add: nth_append)

lemma nth_app_old: "a < length xs \<Longrightarrow> (xs @ ys) ! a = xs ! a"
  by (simp add: nth_append)

lemma bounds_example:
  "inset_bounds (Fin 100, Fin 100) (Width (Fin 5)) = ((Fin 5, Fin 5), (Fin 94, Fin 94))"
  by (simp add: inset_bounds_def resolve_def wrap_def fl_sub_def)

lemma fl_div_zero: "\<not> isfinite (fl_div x (Fin 0))"
  by (cases x) (simp_all add: signed_def)

lemma fl_sub_self_one: "fl_sub (Fin 1) (Fin 1) = Fin 0"
  by (simp add: fl_sub_def)

lemma paramv_setter_eq:
  "paramv_setter c pv t h =
     (case parameters_to_projective_matrix c (ttype t) pv of
        None \<Rightarrow> (Some Codec_raised, t\<lparr>paramv_ref := length h\<rparr>, h @ [Vec pv])
      | Some m \<Rightarrow>
          (None,
           t\<lparr>paramv_ref := length h, matrix_ref := Suc (length h),
              params_ref := Suc (Suc (length h))\<rparr>,
           h @ [Vec pv, Mat m, Mat (dot (mat_of ((h @ [Vec pv, Mat m]) ! frame_ref t)) m)]))"
  by (simp add: paramv_setter_def set_params_def alloc_def nth_append split: option.splits)

lemma matrix_setter_eq:
  "matrix_setter c m t h =
     (case projective_matrix_to_parameters c (ttype t) m of
        None \<Rightarrow> (Some Codec_raised, t\<lparr>matrix_ref := length h\<rparr>, h @ [Mat m])
      | Some pv \<Rightarrow>
          (None,
           t\<lparr>matrix_ref := length h, paramv_ref := Suc (length h),
              params_ref := Suc (Suc (length h))\<rparr>,
           h @ [Mat m, Vec pv, Mat (dot (mat_of ((h @ [Mat m, Vec pv]) ! frame_ref t)) m)]))"
  by (simp add: matrix_setter_def set_params_def alloc_def nth_append split: option.splits)



lemma fresh_allocated: "allocated fresh_tform fresh_store"
  by (simp add: allocated_def fresh_tform_def fresh_store_def)


lemma clone_refs:
  assumes "clone c None t h = Inr (cln, h')"
  shows "frame_ref cln = frame_ref t \<and> output_shape_ref cln = output_shape_ref t
     \<and> \<not> paramv_ref cln < length h \<and> \<not> matrix_ref cln < length h
     \<and> \<not> params_ref cln < length h
     \<and> h' ! paramv_ref cln = Vec (vec_of (h ! paramv_ref t))
     \<and> take (length h) h' = h"
  using assms
  by (auto simp: clone_def paramv_setter_eq nth_app3 split: option.splits)

section \<open>imtransform\<close>

text \<open>
  C4. \<^verbatim>\<open>imtransform\<close> raises its own \<^verbatim>\<open>ValueError\<close> if and only if some element of the
  source image is NaN. The statement holds for every instance, store and warp
  primitive: the state of the transform plays no part, and with a NaN in the image
  the result is the error whatever warp would have done, because warp is not called.
\<close>

theorem imtransform_raises_iff_nan:
  "(imtransform warp t h img order cval = Inl NAN_given_to_imtransform)
     = (\<exists>r \<in> set img. NaN \<in> set r)"
  by (auto simp: imtransform_def fl_eq_refl list_all_iff split: option.splits)

theorem imtransform_raises_iff_nan_witness:
  "imtransform sample_warp fresh_tform fresh_store [[Fin 1, NaN]] 3 (Fin 0)
     = Inl NAN_given_to_imtransform
   \<and> imtransform sample_warp fresh_tform fresh_store [[Fin 1, PInf]] 3 (Fin 0)
     \<noteq> Inl NAN_given_to_imtransform"
  using imtransform_raises_iff_nan [of sample_warp fresh_tform fresh_store "[[Fin 1, NaN]]" 3 "Fin 0"]
    imtransform_raises_iff_nan [of sample_warp fresh_tform fresh_store "[[Fin 1, PInf]]" 3 "Fin 0"]
  by simp




text \<open>
  C8. On an image without NaN, \<^verbatim>\<open>imtransform\<close> calls warp once, with the image, the
  instance's \<^verbatim>\<open>params\<close> itself (no inverse is taken), the given order, mode
  \<^verbatim>\<open>'constant'\<close> with fill value NaN, \<^verbatim>\<open>preserve_range=True\<close> and the instance's output
  shape (\<open>None\<close> when unset, which warp takes as the shape of the image); it raises when
  warp raises and otherwise returns the filled result. So, for a warp that returns an
  image unchanged under the identity matrix and no output shape, an all-finite image
  comes back unchanged from an instance whose \<^verbatim>\<open>params\<close> is the identity and whose
  output shape is unset, whatever \<open>cval\<close> is.
\<close>

theorem imtransform_warp_call:
  "((\<forall>r \<in> set img. NaN \<notin> set r) \<longrightarrow>
      imtransform warp t h img order cval =
        (case warp img (mat_of (h ! params_ref t)) order ''constant'' NaN True
                (map_option (\<lambda>a. vec_of (h ! a)) (output_shape_ref t)) of
           None \<Rightarrow> Inl Warp_raised
         | Some timage \<Rightarrow> Inr (fill cval timage)))
   \<and> ((\<forall>r \<in> set img. \<forall>x \<in> set r. isfinite x)
        \<and> mat_of (h ! params_ref t) = eye3 \<and> output_shape_ref t = None
        \<and> warp img eye3 order ''constant'' NaN True None = Some img \<longrightarrow>
      imtransform warp t h img order cval = Inr img)"
proof -
  have fill_id: "fill cval im = im" if "\<forall>r \<in> set im. \<forall>x \<in> set r. isfinite x" for im
  proof -
    have "map (map nan_to_num) im = im" "map (map (\<lambda>x. if isfinite x then x else cval)) im = im"
      using that by (simp_all add: map_idI nan_to_num_finite)
    then show ?thesis by (simp add: fill_def)
  qed
  have nonan: "list_all (list_all (\<lambda>x. fl_eq x x)) im" if "\<forall>r \<in> set im. \<forall>x \<in> set r. isfinite x" for im
    using that by (fastforce simp: list_all_iff fl_eq_refl)
  show ?thesis
  proof (intro conjI impI)
    assume "\<forall>r \<in> set img. NaN \<notin> set r"
    then have "list_all (list_all (\<lambda>x. fl_eq x x)) img"
      by (auto simp: list_all_iff fl_eq_refl)
    then show "imtransform warp t h img order cval =
        (case warp img (mat_of (h ! params_ref t)) order ''constant'' NaN True
                (map_option (\<lambda>a. vec_of (h ! a)) (output_shape_ref t)) of
           None \<Rightarrow> Inl Warp_raised
         | Some timage \<Rightarrow> Inr (fill cval timage))"
      by (simp add: imtransform_def)
  next
    assume a: "(\<forall>r \<in> set img. \<forall>x \<in> set r. isfinite x)
        \<and> mat_of (h ! params_ref t) = eye3 \<and> output_shape_ref t = None
        \<and> warp img eye3 order ''constant'' NaN True None = Some img"
    then show "imtransform warp t h img order cval = Inr img"
      by (simp add: imtransform_def fill_id nonan)
  qed
qed

theorem imtransform_warp_call_witness:
  "imtransform sample_warp fresh_tform fresh_store [[Fin 1, Fin 2], [Fin 3, Fin 4]] 3 (Fin 0)
     = Inr [[Fin 1, Fin 2], [Fin 3, Fin 4]]"
  by (rule imtransform_warp_call [THEN conjunct2, THEN mp])
    (simp add: sample_warp_def fresh_tform_def fresh_store_def)

section \<open>inset\<close>

text \<open>
  C7. With shape (100, 100), the number 5 as frame and \<open>crop\<close> true, the bounds resolve to
  ((5, 5), (94, 94)), the output shape becomes (90, 90), and the frame installed is the
  matrix the codec gives for the affine parameters [1, 0, 5, 0, 1, 5]: scale 1 on both
  axes and origin (5, 5).
\<close>

theorem inset_example:
  assumes "parameters_to_projective_matrix c Affine [Fin 1, Fin 0, Fin 5, Fin 0, Fin 1, Fin 5] = Some m"
  shows "inset_bounds (Fin 100, Fin 100) (Width (Fin 5)) = ((Fin 5, Fin 5), (Fin 94, Fin 94))
    \<and> (\<exists>t' h' a. inset c (Fin 100, Fin 100) (Width (Fin 5)) True t h = (None, t', h')
          \<and> output_shape_ref t' = Some a \<and> h' ! a = Vec [Fin 90, Fin 90]
          \<and> h' ! frame_ref t' = Mat m)"
  using assms
  by (simp add: bounds_example inset_eq inset_scale_def inset_output_shape_def fl_sub_def
      nth_app3)

theorem inset_example_witness:
  "inset_bounds (Fin 100, Fin 100) (Width (Fin 5)) = ((Fin 5, Fin 5), (Fin 94, Fin 94))
    \<and> (\<exists>t' h' a. inset sample_codec (Fin 100, Fin 100) (Width (Fin 5)) True fresh_tform fresh_store
            = (None, t', h')
          \<and> output_shape_ref t' = Some a \<and> h' ! a = Vec [Fin 90, Fin 90]
          \<and> h' ! frame_ref t' = Mat ((Fin 1, Fin 0, Fin 5), (Fin 0, Fin 1, Fin 5), (Fin 0, Fin 0, Fin 1)))"
  by (rule inset_example) (simp add: sample_codec_def)



text \<open>
  C3, as the code has it. \<^verbatim>\<open>inset\<close> with \<open>crop\<close> false makes no check of the window: it
  raises only what the codec raises on the affine parameters, and when the codec
  returns a matrix, that matrix is installed and the output shape is the shape given.
  On an axis of shape 1 the scale is the quotient of a division by zero and is not
  finite (an infinity or NaN); on an axis of shape above 1 with finite bounds it is
  \<open>(hi - lo) / (n - 1)\<close>, zero for a collapsed window and negative for one of negative
  extent.
\<close>

theorem inset_zoom_unchecked:
  "let b = inset_bounds shape frame;
       scale0 = fl_div (fl_sub (fst (snd b)) (fst (fst b))) (fl_sub (fst shape) (Fin 1));
       scale1 = fl_div (fl_sub (snd (snd b)) (snd (fst b))) (fl_sub (snd shape) (Fin 1))
   in (case parameters_to_projective_matrix c Affine
              [scale1, Fin 0, snd (fst b), Fin 0, scale0, fst (fst b)] of
         None \<Rightarrow> fst (inset c shape frame False t h) = Some Codec_raised
       | Some m \<Rightarrow>
           (\<exists>t' h' a. inset c shape frame False t h = (None, t', h')
              \<and> h' ! frame_ref t' = Mat m
              \<and> output_shape_ref t' = Some a \<and> h' ! a = Vec [fst shape, snd shape]))
      \<and> (fst shape = Fin 1 \<longrightarrow> \<not> isfinite scale0)
      \<and> (snd shape = Fin 1 \<longrightarrow> \<not> isfinite scale1)
      \<and> (\<forall>lo hi n. fst (fst b) = Fin lo \<and> fst (snd b) = Fin hi \<and> fst shape = Fin n \<and> 1 < n \<longrightarrow>
            scale0 = Fin ((hi - lo) / (n - 1)))
      \<and> (\<forall>lo hi n. snd (fst b) = Fin lo \<and> snd (snd b) = Fin hi \<and> snd shape = Fin n \<and> 1 < n \<longrightarrow>
            scale1 = Fin ((hi - lo) / (n - 1)))"
proof -
  have call: "case parameters_to_projective_matrix c Affine
              [snd (inset_scale shape (inset_bounds shape frame) False), Fin 0,
               snd (fst (inset_bounds shape frame)), Fin 0,
               fst (inset_scale shape (inset_bounds shape frame) False),
               fst (fst (inset_bounds shape frame))] of
         None \<Rightarrow> fst (inset c shape frame False t h) = Some Codec_raised
       | Some m \<Rightarrow>
           (\<exists>t' h' a. inset c shape frame False t h = (None, t', h')
              \<and> h' ! frame_ref t' = Mat m
              \<and> output_shape_ref t' = Some a \<and> h' ! a = Vec [fst shape, snd shape])"
    by (simp add: inset_eq inset_output_shape_def nth_app3 split: option.splits)
  show ?thesis
    using call
    by (simp add: Let_def inset_scale_def fl_div_zero fl_sub_self_one fl_sub_def)
qed

text \<open>
  A collapsed window, a window of negative extent and an axis of shape 1: each call
  returns.
\<close>

theorem inset_zoom_unchecked_counterexample:
  "fst (inset sample_codec (Fin 10, Fin 10) (Bounds (Fin 5, Fin 5) (Fin 5, Fin 5)) False
          fresh_tform fresh_store) = None
   \<and> fst (inset sample_codec (Fin 10, Fin 10) (Bounds (Fin 7, Fin 7) (Fin 2, Fin 2)) False
          fresh_tform fresh_store) = None
   \<and> fst (inset sample_codec (Fin 1, Fin 10) (Bounds (Fin 0, Fin 0) (Fin 0, Fin 9)) False
          fresh_tform fresh_store) = None"
  by (simp add: inset_eq sample_codec_def)

theorem inset_zoom_unchecked_witness:
  "(\<exists>t' h' a. inset sample_codec (Fin 10, Fin 10) (Bounds (Fin 7, Fin 7) (Fin 2, Fin 2)) False
          fresh_tform fresh_store = (None, t', h')
       \<and> h' ! frame_ref t'
           = Mat ((Fin (- 5 / 9), Fin 0, Fin 7), (Fin 0, Fin (- 5 / 9), Fin 7), (Fin 0, Fin 0, Fin 1))
       \<and> output_shape_ref t' = Some a \<and> h' ! a = Vec [Fin 10, Fin 10])"
  using inset_zoom_unchecked [of "(Fin 10, Fin 10)" "Bounds (Fin 7, Fin 7) (Fin 2, Fin 2)"
      sample_codec fresh_tform fresh_store]
  by (simp add: Let_def inset_bounds_def resolve_def wrap_def fl_sub_def sample_codec_def)

section \<open>The setters, the constructor and clone\<close>

text \<open>
  C9. On an instance whose references are buffers of the store, the \<^verbatim>\<open>frame\<close> setter
  returns without raising; the frame is then a buffer that did not exist before the
  call (so it is no buffer of the caller's) and holds \<open>f\<close>; \<^verbatim>\<open>params\<close> holds the
  product of \<open>f\<close> and the matrix; \<^verbatim>\<open>_paramv\<close> and \<^verbatim>\<open>_matrix\<close> are the same references
  with the same contents, and every buffer that existed before is unchanged.
\<close>

theorem frame_setter_effect:
  assumes "allocated t h"
  shows "\<exists>t' h'. frame_setter f t h = (None, t', h')
     \<and> \<not> frame_ref t' < length h
     \<and> h' ! frame_ref t' = Mat f
     \<and> h' ! params_ref t' = Mat (dot f (mat_of (h ! matrix_ref t)))
     \<and> paramv_ref t' = paramv_ref t \<and> matrix_ref t' = matrix_ref t
     \<and> h' ! paramv_ref t' = h ! paramv_ref t \<and> h' ! matrix_ref t' = h ! matrix_ref t
     \<and> take (length h) h' = h"
  using assms
  by (simp add: frame_setter_eq allocated_def nth_app2 nth_app_old)

theorem frame_setter_effect_witness:
  "\<exists>t' h'. frame_setter shifted fresh_tform fresh_store = (None, t', h')
     \<and> \<not> frame_ref t' < length fresh_store
     \<and> h' ! frame_ref t' = Mat shifted
     \<and> h' ! params_ref t' = Mat (dot shifted (mat_of (fresh_store ! matrix_ref fresh_tform)))
     \<and> paramv_ref t' = paramv_ref fresh_tform \<and> matrix_ref t' = matrix_ref fresh_tform
     \<and> h' ! paramv_ref t' = fresh_store ! paramv_ref fresh_tform
     \<and> h' ! matrix_ref t' = fresh_store ! matrix_ref fresh_tform
     \<and> take (length fresh_store) h' = fresh_store"
  by (rule frame_setter_effect [OF fresh_allocated])




text \<open>
  C10. A constructor given both a parameter vector and a matrix does what it does given
  the matrix alone, whatever the vector is: it raises only if the codec rejects the
  matrix, and otherwise the parameter vector is the codec's for the matrix, the matrix
  is the one given, the frame is the identity and \<^verbatim>\<open>params\<close> is their product.
\<close>

theorem init_matrix_precedence:
  "init c tt (Some pv) (Some m) h = init c tt None (Some m) h
   \<and> (case projective_matrix_to_parameters c tt m of
        None \<Rightarrow> init c tt (Some pv) (Some m) h = Inl Codec_raised
      | Some q \<Rightarrow>
          (\<exists>t' h'. init c tt (Some pv) (Some m) h = Inr (t', h')
             \<and> ttype t' = tt
             \<and> h' ! paramv_ref t' = Vec q \<and> h' ! matrix_ref t' = Mat m
             \<and> h' ! frame_ref t' = Mat eye3 \<and> h' ! params_ref t' = Mat (dot eye3 m)
             \<and> output_shape_ref t' = None))"
  by (simp add: init_def alloc_def matrix_setter_eq nth_append split: option.splits)

theorem init_matrix_precedence_witness:
  "\<exists>t' h'. init sample_codec Translate (Some [Fin 1, Fin 2, Fin 3]) (Some shifted) [] = Inr (t', h')
     \<and> h' ! paramv_ref t' = Vec [Fin 7, Fin 0] \<and> h' ! matrix_ref t' = Mat shifted
     \<and> h' ! params_ref t' = Mat shifted"
proof -
  have q: "projective_matrix_to_parameters sample_codec Translate shifted = Some [Fin 7, Fin 0]"
    by (simp add: sample_codec_def shifted_def)
  have d: "dot eye3 shifted = shifted"
    by (simp add: shifted_def eye3_def)
  from init_matrix_precedence [of sample_codec Translate "[Fin 1, Fin 2, Fin 3]" shifted "[]",
      THEN conjunct2]
  show ?thesis unfolding q d option.case by blast
qed

text \<open>
  C2. \<^verbatim>\<open>clone()\<close> on \<^verbatim>\<open>TranslateTransform()\<close>: the copy has buffers of its own for
  \<^verbatim>\<open>_paramv\<close>, \<^verbatim>\<open>_matrix\<close> and \<^verbatim>\<open>params\<close>, and its \<^verbatim>\<open>_frame\<close> is the reference of the
  source (\<open>clone_refs\<close> has this for every instance and codec). An assignment in place
  through the source's frame, \<^verbatim>\<open>t.frame[0, 2] = 7\<close>, is then read through the copy's.
\<close>

theorem clone_shares_frame:
  "clone sample_codec None fresh_tform fresh_store
     = Inr (fresh_tform\<lparr>paramv_ref := 5, matrix_ref := 6, params_ref := 7\<rparr>,
            fresh_store @ [Vec [Fin 0, Fin 0], Mat eye3, Mat eye3])
   \<and> frame_ref (fresh_tform\<lparr>paramv_ref := 5, matrix_ref := 6, params_ref := 7\<rparr>)
       = frame_ref fresh_tform
   \<and> (fresh_store @ [Vec [Fin 0, Fin 0], Mat eye3, Mat eye3])
        ! frame_ref (fresh_tform\<lparr>paramv_ref := 5, matrix_ref := 6, params_ref := 7\<rparr>) = Mat eye3
   \<and> write_at (fresh_store @ [Vec [Fin 0, Fin 0], Mat eye3, Mat eye3])
        (frame_ref fresh_tform) (Mat shifted)
        ! frame_ref (fresh_tform\<lparr>paramv_ref := 5, matrix_ref := 6, params_ref := 7\<rparr>) = Mat shifted
   \<and> shifted \<noteq> eye3"
  by (simp add: clone_def paramv_setter_eq sample_codec_def fresh_tform_def fresh_store_def
      write_at_def shifted_def eye3_def)

end
